theory Spec2Isabelle
  imports Complex_Main "HOL-Library.Word"
begin

unbundle bit_operations_syntax

section \<open>The notebook layout widget of kfactory (widgets/interactive.py)\<close>

text \<open>
  The module binds a layout viewer session (\<^verbatim>\<open>lay.LayoutView\<close>) to a notebook image and
  forwards browser events to it. The viewer engine is not part of the module: what the
  module reads from it (its constants, the pictures it renders, the layer table it
  computes, its layer iterator) is taken as a parameter of the functions below, and what
  the module sends to it is kept in the session's call list.
\<close>

subsection \<open>Browser events\<close>

text \<open>
  A DOM event as the event library delivers it: a dictionary with the keys the handlers
  read. \<^verbatim>\<open>deltaY\<close> is a JavaScript number, possibly fractional; the other numbers are
  pixel offsets.
\<close>

record Event =
  event :: string
  shiftKey :: bool
  altKey :: bool
  ctrlKey :: bool
  buttons :: int
  deltaY :: rat
  relativeX :: int
  relativeY :: int
  movementX :: int
  movementY :: int

text \<open>The constants of \<^verbatim>\<open>lay.ButtonState\<close>, defined by the engine.\<close>

record ButtonState =
  ShiftKey :: int
  AltKey :: int
  ControlKey :: int
  LeftButton :: int
  RightButton :: int
  MidButton :: int

text \<open>
  \<^verbatim>\<open>LayoutWidget._get_modifier_buttons\<close>: the six \<^verbatim>\<open>if ...: buttons |= ...\<close>
  statements, in the order of the source. Python integers are unbounded, as \<open>int\<close> is.
\<close>

definition get_modifier_buttons :: "ButtonState \<Rightarrow> Event \<Rightarrow> int" where
  "get_modifier_buttons bs ev =
    (let shift = shiftKey ev;
         alt = altKey ev;
         ctrl = ctrlKey ev;
         mouse_buttons = buttons ev;
         b0 = (0::int);
         b1 = (if shift then b0 OR ShiftKey bs else b0);
         b2 = (if alt then b1 OR AltKey bs else b1);
         b3 = (if ctrl then b2 OR ControlKey bs else b2);
         b4 = (if mouse_buttons AND 1 \<noteq> 0 then b3 OR LeftButton bs else b3);
         b5 = (if mouse_buttons AND 2 \<noteq> 0 then b4 OR RightButton bs else b4);
         b6 = (if mouse_buttons AND 4 \<noteq> 0 then b5 OR MidButton bs else b5)
     in b6)"

text \<open>The flag a key or a button contributes: its constant when set, nothing otherwise.\<close>

definition flag :: "bool \<Rightarrow> int \<Rightarrow> int" where
  "flag on c = (if on then c else 0)"

subsection \<open>The viewer session\<close>

text \<open>
  A box of the layout database is empty when a corner pair is inverted; the database
  gives the box \<open>(1, 1; -1, -1)\<close> for a layer without shapes.
\<close>

datatype Box = Box (box_left: int) (box_bottom: int) (box_right: int) (box_top: int)

definition box_empty :: "Box \<Rightarrow> bool" where
  "box_empty b = (box_right b < box_left b \<or> box_top b < box_bottom b)"

text \<open>The exceptions that reach the module's handlers.\<close>

datatype py_error = AttributeError | TypeError

text \<open>A cell: its name and the bounding boxes of its layers, by layer index.\<close>

record Cell =
  cell_name :: string
  bboxes :: "(int \<times> Box) list"

definition layer_bbox :: "Cell \<Rightarrow> int \<Rightarrow> Box" where
  "layer_bbox c i = (case map_of (bboxes c) i of Some b \<Rightarrow> b | None \<Rightarrow> Box 1 1 (-1) (-1))"

text \<open>
  \<^verbatim>\<open>Cell.bbox_per_layer\<close>. Its argument is an unsigned layer index: the engine raises
  \<^verbatim>\<open>TypeError\<close> for a negative one, and \<open>-1\<close> is the \<^verbatim>\<open>layer_index()\<close> of a table entry
  whose layer the layout does not have.
\<close>

definition bbox_per_layer :: "Cell \<Rightarrow> int \<Rightarrow> py_error + Box" where
  "bbox_per_layer c i = (if i < 0 then Inl TypeError else Inr (layer_bbox c i))"

text \<open>
  An entry of the layer table as the widget sees it (\<^verbatim>\<open>LayerPropertiesNodeRef\<close>): the
  attributes the module reads or writes, and \<open>other\<close> for every further attribute the
  engine compares in \<^verbatim>\<open>==\<close> (colours, patterns, widths, children). The engine compares
  entries by their attributes, so \<^verbatim>\<open>==\<close> is equality of records.
\<close>

record LayerProperties =
  visible :: bool
  name :: string
  source_layer :: int
  source_datatype :: int
  eff_fill_color :: nat
  layer_index :: int
  has_children :: bool
  other :: string

datatype DPoint = DPoint int int

text \<open>The methods of the session the module calls, with their arguments.\<close>

datatype lv_call =
    ShowLayout "Cell list" bool
  | LoadLayerProps string
  | SetCell "Cell option"
  | MaxHier
  | Resize int int
  | AddMissingLayers
  | ZoomFit
  | Timer
  | SetVisible nat bool
  | SetName nat string
  | SwitchMode string
  | SendWheelEvent int bool DPoint int
  | SendMousePressEvent DPoint int
  | SendMouseReleaseEvent DPoint int
  | SendMouseMoveEvent DPoint int
  | SendEnterEvent
  | SendLeaveEvent
  | SetOnImageUpdatedEvent

text \<open>
  The session (\<^verbatim>\<open>self.layout_view\<close>): the active cell (\<^verbatim>\<open>active_cellview().cell\<close>, which
  may be none), the cells of the layout shown (\<^verbatim>\<open>active_cellview().layout()\<close>), the
  entries \<^verbatim>\<open>each_layer()\<close> enumerates, and every call made on the session so far, oldest
  first.
\<close>

record LayoutView =
  cell :: "Cell option"
  layout :: "Cell list"
  layers :: "LayerProperties list"
  calls :: "lv_call list"

type_synonym bytes = "8 word list"

text \<open>
  What the engine computes and the module only reads: the encoded picture of a session
  (\<^verbatim>\<open>get_screenshot_pixels().to_png_data()\<close>, a read of the session: the picture may
  depend on everything the session was told), and the layer table the engine leaves after
  one of its three calls that rebuild it (\<^verbatim>\<open>show_layout\<close>, \<^verbatim>\<open>load_layer_props\<close>,
  \<^verbatim>\<open>add_missing_layers\<close>). No other call of the module touches the table.
\<close>

record Engine =
  screenshot :: "LayoutView \<Rightarrow> bytes"
  layer_table :: "lv_call \<Rightarrow> LayoutView \<Rightarrow> LayerProperties list"

definition call :: "lv_call \<Rightarrow> LayoutView \<Rightarrow> LayoutView" where
  "call c v = v\<lparr>calls := calls v @ [c]\<rparr>"

definition call_layers :: "Engine \<Rightarrow> lv_call \<Rightarrow> LayoutView \<Rightarrow> LayoutView" where
  "call_layers e c v = v\<lparr>layers := layer_table e c v, calls := calls v @ [c]\<rparr>"

subsection \<open>The controls of the layer selector\<close>

text \<open>
  A toggle button with the attributes the module sets on it
  (\<^verbatim>\<open>style.button_color\<close>, \<^verbatim>\<open>default_color\<close>, \<^verbatim>\<open>layer_props\<close>, \<^verbatim>\<open>name\<close>), and the
  boxes \<^verbatim>\<open>build_layer_toggle\<close> returns: a button beside a label, or beside an accordion
  of the boxes of the children. The button's \<^verbatim>\<open>label\<close> attribute repeats the label of
  its box and is never read; sizes and borders are not kept.
\<close>

record Button =
  button_color :: string
  default_color :: string
  layer_props :: LayerProperties
  button_name :: string

datatype HBox = HBox Button LabelW
  and LabelW = Label string | Accordion "HBox list" string

subsection \<open>The widget\<close>

text \<open>
  \<^verbatim>\<open>self\<close>: the constructor's flag, the session, the layer-properties path, the bytes of
  the displayed picture (\<^verbatim>\<open>self.image.value\<close>) and the boxes of the "Layers" tab of
  \<^verbatim>\<open>self.widget.right_sidebar\<close>, which is \<^verbatim>\<open>None\<close> when the widget was built without a
  selector.
\<close>

record LayoutWidget =
  hide_unused_layers :: bool
  layout_view :: LayoutView
  layer_properties :: "string option"
  image :: bytes
  right_sidebar :: "HBox list option"

text \<open>\<^verbatim>\<open>LayoutWidget.refresh\<close>.\<close>

definition refresh :: "Engine \<Rightarrow> LayoutWidget \<Rightarrow> LayoutWidget" where
  "refresh e w =
    (let v1 = call Timer (layout_view w);
         png_data = screenshot e v1;
         v2 = call Timer v1
     in w\<lparr>layout_view := v2, image := png_data\<rparr>)"

text \<open>
  \<^verbatim>\<open>LayoutWidget.show_cell\<close>. The argument is what the caller has: a cell, or \<^verbatim>\<open>None\<close>
  when a lookup found none.
\<close>

definition show_cell :: "Engine \<Rightarrow> LayoutWidget \<Rightarrow> Cell option \<Rightarrow> LayoutWidget" where
  "show_cell e w c =
    (let v0 = call (SetCell c) ((layout_view w)\<lparr>cell := c\<rparr>);
         v1 = call MaxHier v0;
         v2 = call (Resize 800 600) v1;
         v3 = call_layers e AddMissingLayers v2;
         v4 = call ZoomFit v3
     in w\<lparr>layout_view := v4\<rparr>)"

text \<open>Python's \<^verbatim>\<open>int(x)\<close> on a number: the fraction is dropped, towards zero.\<close>

definition py_int :: "rat \<Rightarrow> int" where
  "py_int q = (if 0 \<le> q then \<lfloor>q\<rfloor> else \<lceil>q\<rceil>)"

text \<open>\<^verbatim>\<open>LayoutWidget.on_scroll\<close>.\<close>

definition on_scroll :: "ButtonState \<Rightarrow> Engine \<Rightarrow> LayoutWidget \<Rightarrow> Event \<Rightarrow> LayoutWidget" where
  "on_scroll bs e w ev =
    (let v1 = call Timer (layout_view w);
         delta = py_int (deltaY ev);
         x = relativeX ev;
         y = relativeY ev;
         btns = get_modifier_buttons bs ev;
         v2 = call (SendWheelEvent (- delta) False (DPoint x y) btns) v1
     in refresh e (w\<lparr>layout_view := v2\<rparr>))"

text \<open>
  \<^verbatim>\<open>LayoutWidget.on_mouse\<close>: the \<^verbatim>\<open>if\<close>/\<^verbatim>\<open>elif\<close> chain on the event's kind has no
  \<^verbatim>\<open>else\<close>.
\<close>

definition on_mouse :: "ButtonState \<Rightarrow> Engine \<Rightarrow> LayoutWidget \<Rightarrow> Event \<Rightarrow> LayoutWidget" where
  "on_mouse bs e w ev =
    (let v1 = call Timer (layout_view w);
         x = relativeX ev;
         y = relativeY ev;
         btns = get_modifier_buttons bs ev;
         v2 = (if event ev = ''mousedown'' then call (SendMousePressEvent (DPoint x y) btns) v1
               else if event ev = ''mouseup'' then call (SendMouseReleaseEvent (DPoint x y) btns) v1
               else if event ev = ''mousemove'' then call (SendMouseMoveEvent (DPoint x y) btns) v1
               else v1);
         w1 = refresh e (w\<lparr>layout_view := v2\<rparr>)
     in w1\<lparr>layout_view := call Timer (layout_view w1)\<rparr>)"

text \<open>The kinds of event \<^verbatim>\<open>on_mouse\<close> is registered for in the constructor.\<close>

definition mouse_watched_events :: "string list" where
  "mouse_watched_events = [''mousedown'', ''mouseup'', ''mousemove'', ''contextmenu'']"

text \<open>\<^verbatim>\<open>LayoutWidget.on_mouse_enter\<close> and \<^verbatim>\<open>on_mouse_leave\<close>.\<close>

definition on_mouse_enter :: "Engine \<Rightarrow> LayoutWidget \<Rightarrow> LayoutWidget" where
  "on_mouse_enter e w =
    (let v1 = call Timer (layout_view w);
         v2 = call SendEnterEvent v1
     in refresh e (w\<lparr>layout_view := v2\<rparr>))"

definition on_mouse_leave :: "Engine \<Rightarrow> LayoutWidget \<Rightarrow> LayoutWidget" where
  "on_mouse_leave e w =
    (let v1 = call Timer (layout_view w);
         v2 = call SendLeaveEvent v1
     in refresh e (w\<lparr>layout_view := v2\<rparr>))"

text \<open>
  The observer \<^verbatim>\<open>switch_mode\<close> that \<^verbatim>\<open>build_modes\<close> attaches to the mode buttons; its
  argument is the change's new value. (The constructor defines another \<^verbatim>\<open>switch_mode\<close>,
  which also refreshes, and attaches it to nothing.)
\<close>

definition switch_mode :: "LayoutWidget \<Rightarrow> string \<Rightarrow> LayoutWidget" where
  "switch_mode w new = w\<lparr>layout_view := call (SwitchMode new) (layout_view w)\<rparr>"

subsection \<open>Toggling a layer\<close>

text \<open>
  The loop of \<^verbatim>\<open>button_toggle\<close> over \<^verbatim>\<open>each_layer()\<close>: the first entry equal to the
  button's \<^verbatim>\<open>layer_props\<close> gets its visibility flipped and the button's name, and the
  loop breaks. The result is the position of that entry and its new value, if there is
  one.
\<close>

fun each_layer_toggle :: "Button \<Rightarrow> nat \<Rightarrow> LayerProperties list \<Rightarrow> (nat \<times> LayerProperties) option" where
  "each_layer_toggle button i [] = None"
| "each_layer_toggle button i (props # rest) =
     (if props = layer_props button
      then Some (i, props\<lparr>visible := \<not> visible props, name := button_name button\<rparr>)
      else each_layer_toggle button (Suc i) rest)"

text \<open>
  \<^verbatim>\<open>LayoutWidget.button_toggle\<close>. The two assignments to the entry are writes to the
  session; the button is returned with its new colour and, when an entry matched, with
  that entry as its \<^verbatim>\<open>layer_props\<close>.
\<close>

definition button_toggle :: "Engine \<Rightarrow> LayoutWidget \<Rightarrow> Button \<Rightarrow> LayoutWidget \<times> Button" where
  "button_toggle e w button =
    (let b1 = button\<lparr>button_color :=
                 (if button_color button = default_color button then ''transparent''
                  else default_color button)\<rparr>;
         v = layout_view w
     in case each_layer_toggle b1 0 (layers v) of
          None \<Rightarrow> (refresh e w, b1)
        | Some (i, props) \<Rightarrow>
            (refresh e (w\<lparr>layout_view :=
                 v\<lparr>layers := (layers v)[i := props],
                   calls := calls v @ [SetVisible i (visible props), SetName i (name props)]\<rparr>\<rparr>),
             b1\<lparr>layer_props := props\<rparr>))"

text \<open>Clicking the same button \<open>n\<close> times.\<close>

fun toggle_times :: "Engine \<Rightarrow> nat \<Rightarrow> LayoutWidget \<Rightarrow> Button \<Rightarrow> LayoutWidget \<times> Button" where
  "toggle_times e 0 w button = (w, button)"
| "toggle_times e (Suc n) w button =
     (case button_toggle e w button of (w', button') \<Rightarrow> toggle_times e n w' button')"

text \<open>Two entries that agree in everything but visibility and name.\<close>

definition same_layer :: "LayerProperties \<Rightarrow> LayerProperties \<Rightarrow> bool" where
  "same_layer p q = (p\<lparr>visible := visible q, name := name q\<rparr> = q)"

subsection \<open>Building the layer selector\<close>

text \<open>Python's formats \<^verbatim>\<open>{n:06x}\<close> of a colour and \<^verbatim>\<open>{i}\<close> of an integer.\<close>

definition digit_char :: "nat \<Rightarrow> char" where
  "digit_char d = ''0123456789abcdef'' ! d"

fun hex :: "nat \<Rightarrow> string" where
  "hex n = (if n < 16 then [digit_char n] else hex (n div 16) @ [digit_char (n mod 16)])"

definition format_06x :: "nat \<Rightarrow> string" where
  "format_06x n = replicate (6 - length (hex n)) (CHR ''0'') @ hex n"

fun dec :: "nat \<Rightarrow> string" where
  "dec n = (if n < 10 then [digit_char n] else dec (n div 10) @ [digit_char (n mod 10)])"

definition str :: "int \<Rightarrow> string" where
  "str i = (if i < 0 then CHR ''-'' # dec (nat (- i)) else dec (nat i))"

text \<open>
  The engine's layer iterator (\<^verbatim>\<open>lay.LayerPropertiesIterator\<close>), with the methods the
  module calls. How the iterator walks the table is the engine's matter, so its methods
  are parameters, over any type \<open>'it\<close> of iterator states. The moving methods return the
  iterator they moved, and a move made inside a call is seen by the caller.
\<close>

record 'it LayerPropertiesIterator =
  begin_layers :: "LayoutView \<Rightarrow> 'it"
  at_end :: "'it \<Rightarrow> bool"
  current :: "'it \<Rightarrow> LayerProperties"
  next_entry :: "'it \<Rightarrow> 'it"
  down_first_child :: "'it \<Rightarrow> 'it"
  num_siblings :: "'it \<Rightarrow> int"

text \<open>
  \<^verbatim>\<open>LayoutWidget.build_layer_toggle\<close>, with its \<^verbatim>\<open>for\<close> loop over the children as
  \<open>build_children\<close>. The nesting of the calls is bounded by \<open>fuel\<close>; \<open>None\<close> means the
  bound was reached. In the leaf branch \<^verbatim>\<open>cell.bbox_per_layer\<close> is looked up on the active
  cell first, which raises \<^verbatim>\<open>AttributeError\<close> when there is none; the call then raises
  what the engine raises for the entry's layer index. The result is the moved iterator and
  the box built, if any.
\<close>

fun build_layer_toggle ::
    "'it LayerPropertiesIterator \<Rightarrow> nat \<Rightarrow> LayoutWidget \<Rightarrow> 'it \<Rightarrow> (py_error + 'it \<times> HBox option) option"
  and build_children ::
    "'it LayerPropertiesIterator \<Rightarrow> nat \<Rightarrow> LayoutWidget \<Rightarrow> nat \<Rightarrow> 'it \<Rightarrow> HBox list
      \<Rightarrow> (py_error + 'it \<times> HBox list) option"
where
  "build_layer_toggle ops 0 w prop_iter = None"
| "build_layer_toggle ops (Suc fuel) w prop_iter =
    (let props = current ops prop_iter;
         layer_color = CHR ''#'' # format_06x (eff_fill_color props);
         layer_checkbox =
           \<lparr>button_color = (if visible props then layer_color else ''transparent''),
            default_color = layer_color, layer_props = props, button_name = []\<rparr>
     in if has_children props then
          (let it1 = down_first_child ops prop_iter;
               n_children = num_siblings ops it1
           in case build_children ops fuel w (nat n_children) it1 [] of
                None \<Rightarrow> None
              | Some (Inl err) \<Rightarrow> Some (Inl err)
              | Some (Inr (it2, children)) \<Rightarrow>
                  if children = [] then Some (Inr (it2, None))
                  else Some (Inr (it2, Some (HBox (layer_checkbox\<lparr>button_name := name props\<rparr>)
                                  (Accordion children (name props))))))
        else
          (case cell (layout_view w) of
             None \<Rightarrow> Some (Inl AttributeError)
           | Some c \<Rightarrow>
               (case bbox_per_layer c (layer_index (current ops prop_iter)) of
                  Inl err \<Rightarrow> Some (Inl err)
                | Inr bbox \<Rightarrow>
                    if box_empty bbox then Some (Inr (prop_iter, None))
                    else
                      (let layer_label =
                             (if name props \<noteq> [] then name props
                              else str (source_layer props) @ ''/'' @ str (source_datatype props))
                       in Some (Inr (prop_iter,
                            Some (HBox (layer_checkbox\<lparr>button_name := layer_label\<rparr>)
                              (Label layer_label))))))))"
| "build_children ops fuel w 0 prop_iter children = Some (Inr (prop_iter, children))"
| "build_children ops fuel w (Suc k) prop_iter children =
    (let it1 = next_entry ops prop_iter
     in case build_layer_toggle ops fuel w it1 of
          None \<Rightarrow> None
        | Some (Inl err) \<Rightarrow> Some (Inl err)
        | Some (Inr (it2, t)) \<Rightarrow>
            build_children ops fuel w k it2
              (case t of None \<Rightarrow> children | Some h \<Rightarrow> children @ [h]))"

text \<open>
  The loop \<^verbatim>\<open>while not prop_iter.at_end(): ...; prop_iter.next()\<close> of \<^verbatim>\<open>build_selector\<close>
  and of \<^verbatim>\<open>on_select_cell\<close>, bounded by \<open>fuel\<close> in the same way.
\<close>

fun layer_boxes ::
    "'it LayerPropertiesIterator \<Rightarrow> nat \<Rightarrow> LayoutWidget \<Rightarrow> 'it \<Rightarrow> HBox list
      \<Rightarrow> (py_error + HBox list) option" where
  "layer_boxes ops 0 w prop_iter all_boxes = None"
| "layer_boxes ops (Suc fuel) w prop_iter all_boxes =
    (if at_end ops prop_iter then Some (Inr all_boxes)
     else case build_layer_toggle ops fuel w prop_iter of
            None \<Rightarrow> None
          | Some (Inl err) \<Rightarrow> Some (Inl err)
          | Some (Inr (it1, t)) \<Rightarrow>
              layer_boxes ops fuel w (next_entry ops it1)
                (case t of None \<Rightarrow> all_boxes | Some h \<Rightarrow> all_boxes @ [h]))"

declare hex.simps [simp del]
declare dec.simps [simp del]

subsection \<open>Selecting a cell\<close>

text \<open>
  A handler that raises leaves the widget as it was at the raise: the result is then the
  error with that widget, and the widget alone otherwise.
\<close>

type_synonym outcome = "py_error \<times> LayoutWidget + LayoutWidget"

text \<open>
  \<^verbatim>\<open>LayoutWidget.on_select_cell\<close>; \<open>owner_name\<close> is \<^verbatim>\<open>event["owner"].name\<close>. The
  engine's \<^verbatim>\<open>Layout.cell(name)\<close> gives the cell of that name, and \<^verbatim>\<open>None\<close> when the
  layout has none. Without a selector \<^verbatim>\<open>self.widget.right_sidebar\<close> is \<^verbatim>\<open>None\<close>, and
  reading its children raises.
\<close>

definition layout_cell :: "LayoutView \<Rightarrow> string \<Rightarrow> Cell option" where
  "layout_cell v nm = find (\<lambda>c. cell_name c = nm) (layout v)"

definition on_select_cell ::
    "'it LayerPropertiesIterator \<Rightarrow> Engine \<Rightarrow> nat \<Rightarrow> LayoutWidget \<Rightarrow> string \<Rightarrow> outcome option" where
  "on_select_cell ops e fuel w owner_name =
    (let w1 = show_cell e w (layout_cell (layout_view w) owner_name);
         prop_iter = begin_layers ops (layout_view w1)
     in case layer_boxes ops fuel w1 prop_iter [] of
          None \<Rightarrow> None
        | Some (Inl err) \<Rightarrow> Some (Inl (err, w1))
        | Some (Inr all_boxes) \<Rightarrow>
            (case right_sidebar w1 of
               None \<Rightarrow> Some (Inl (AttributeError, w1))
             | Some tabs \<Rightarrow> Some (Inr (refresh e (w1\<lparr>right_sidebar := Some all_boxes\<rparr>)))))"

subsection \<open>The constructor\<close>





section \<open>Modifier decoding\<close>

lemma three_and: "(3::int) AND 1 = 1" "(3::int) AND 2 = 2" "(3::int) AND 4 = 0"
  by simp_all

lemma absorb_right: "((a::int) OR b) AND b = b"
  by (auto simp add: bit_eq_iff bit_and_iff bit_or_iff)

lemma absorb_left: "(((a::int) OR b) OR c) AND b = b"
  by (auto simp add: bit_eq_iff bit_and_iff bit_or_iff)

text \<open>
  C1. The decoded value is the bitwise OR of the key flags (shift, alt, ctrl) and of the
  button flags read from the browser's button mask (left = 1, right = 2, middle = 4).
  For shift alone with buttons = 1 it is exactly ShiftKey OR LeftButton, and for
  buttons = 3 it contains every bit of LeftButton and of RightButton.
\<close>

theorem get_modifier_buttons_decodes:
  "get_modifier_buttons bs ev =
      (flag (shiftKey ev) (ShiftKey bs) OR flag (altKey ev) (AltKey bs)
        OR flag (ctrlKey ev) (ControlKey bs)
        OR flag (buttons ev AND 1 \<noteq> 0) (LeftButton bs)
        OR flag (buttons ev AND 2 \<noteq> 0) (RightButton bs)
        OR flag (buttons ev AND 4 \<noteq> 0) (MidButton bs))
   \<and> (shiftKey ev \<and> \<not> ctrlKey ev \<and> \<not> altKey ev \<and> buttons ev = 1 \<longrightarrow>
        get_modifier_buttons bs ev = (ShiftKey bs OR LeftButton bs))
   \<and> (buttons ev = 3 \<longrightarrow>
        get_modifier_buttons bs ev AND LeftButton bs = LeftButton bs
        \<and> get_modifier_buttons bs ev AND RightButton bs = RightButton bs)"
proof (intro conjI impI)
  show "get_modifier_buttons bs ev =
      (flag (shiftKey ev) (ShiftKey bs) OR flag (altKey ev) (AltKey bs)
        OR flag (ctrlKey ev) (ControlKey bs)
        OR flag (buttons ev AND 1 \<noteq> 0) (LeftButton bs)
        OR flag (buttons ev AND 2 \<noteq> 0) (RightButton bs)
        OR flag (buttons ev AND 4 \<noteq> 0) (MidButton bs))"
    by (simp add: get_modifier_buttons_def flag_def Let_def or.assoc)
next
  assume "shiftKey ev \<and> \<not> ctrlKey ev \<and> \<not> altKey ev \<and> buttons ev = 1"
  then show "get_modifier_buttons bs ev = (ShiftKey bs OR LeftButton bs)"
    by (simp add: get_modifier_buttons_def Let_def)
next
  assume b: "buttons ev = 3"
  show "get_modifier_buttons bs ev AND LeftButton bs = LeftButton bs"
    using b by (simp add: get_modifier_buttons_def Let_def three_and absorb_left absorb_right)
next
  assume b: "buttons ev = 3"
  show "get_modifier_buttons bs ev AND RightButton bs = RightButton bs"
    using b by (simp add: get_modifier_buttons_def Let_def three_and absorb_right)
qed

text \<open>A numbering of the constants, one bit each, and a shift-click, for the instance below.\<close>

definition klayout_buttons :: ButtonState where
  "klayout_buttons = \<lparr>ShiftKey = 1, AltKey = 4, ControlKey = 2,
     LeftButton = 8, RightButton = 32, MidButton = 16\<rparr>"

definition shift_click :: Event where
  "shift_click = \<lparr>event = ''mousedown'', shiftKey = True, altKey = False, ctrlKey = False,
     buttons = 1, deltaY = 0, relativeX = 10, relativeY = 20, movementX = 0, movementY = 0\<rparr>"

theorem get_modifier_buttons_decodes_witness:
  "(shiftKey shift_click \<and> \<not> ctrlKey shift_click \<and> \<not> altKey shift_click
      \<and> buttons shift_click = 1)
   \<and> get_modifier_buttons klayout_buttons shift_click = 9
   \<and> buttons (shift_click\<lparr>buttons := 3\<rparr>) = 3
   \<and> get_modifier_buttons klayout_buttons (shift_click\<lparr>buttons := 3\<rparr>) AND 8 = 8
   \<and> get_modifier_buttons klayout_buttons (shift_click\<lparr>buttons := 3\<rparr>) AND 32 = 32"
proof -
  have h1: "shiftKey shift_click \<and> \<not> ctrlKey shift_click \<and> \<not> altKey shift_click
      \<and> buttons shift_click = 1"
    by (simp add: shift_click_def)
  have h3: "buttons (shift_click\<lparr>buttons := 3\<rparr>) = 3"
    by simp
  have "get_modifier_buttons klayout_buttons shift_click
      = (ShiftKey klayout_buttons OR LeftButton klayout_buttons)"
    using get_modifier_buttons_decodes [of klayout_buttons shift_click] h1 by blast
  then have a: "get_modifier_buttons klayout_buttons shift_click = 9"
    by (simp add: klayout_buttons_def)
  have "get_modifier_buttons klayout_buttons (shift_click\<lparr>buttons := 3\<rparr>)
          AND LeftButton klayout_buttons = LeftButton klayout_buttons
      \<and> get_modifier_buttons klayout_buttons (shift_click\<lparr>buttons := 3\<rparr>)
          AND RightButton klayout_buttons = RightButton klayout_buttons"
    using get_modifier_buttons_decodes [of klayout_buttons "shift_click\<lparr>buttons := 3\<rparr>"] h3
    by blast
  then have b: "get_modifier_buttons klayout_buttons (shift_click\<lparr>buttons := 3\<rparr>) AND 8 = 8
      \<and> get_modifier_buttons klayout_buttons (shift_click\<lparr>buttons := 3\<rparr>) AND 32 = 32"
    by (simp add: klayout_buttons_def)
  show ?thesis using h1 h3 a b by blast
qed

section \<open>Instances\<close>

text \<open>
  An engine whose picture shows how many calls the session has processed (so that a
  redraw still in progress shows in the frame) and which leaves the layer table as it
  is, and a widget on an empty session.
\<close>

definition counting_engine :: Engine where
  "counting_engine =
     \<lparr>screenshot = (\<lambda>v. [of_nat (length (calls v))]), layer_table = (\<lambda>c v. layers v)\<rparr>"

definition blank_view :: LayoutView where
  "blank_view = \<lparr>cell = None, layout = [], layers = [], calls = []\<rparr>"

definition blank_widget :: LayoutWidget where
  "blank_widget = \<lparr>hide_unused_layers = True, layout_view = blank_view,
     layer_properties = None, image = [], right_sidebar = Some []\<rparr>"

text \<open>
  Layer entries: two metal entries that differ in their visibility only, a via entry, and
  an entry for a layer the layout does not have. The button is the one
  \<^verbatim>\<open>build_layer_toggle\<close> makes for the visible metal entry.
\<close>

definition metal_hidden :: LayerProperties where
  "metal_hidden = \<lparr>visible = False, name = ''M1'', source_layer = 1, source_datatype = 0,
     eff_fill_color = 255, layer_index = 0, has_children = False, other = []\<rparr>"

definition metal_shown :: LayerProperties where
  "metal_shown = metal_hidden\<lparr>visible := True\<rparr>"

definition via_shown :: LayerProperties where
  "via_shown = \<lparr>visible = True, name = ''VIA'', source_layer = 2, source_datatype = 0,
     eff_fill_color = 65280, layer_index = 1, has_children = False, other = []\<rparr>"


definition layers_widget :: "LayerProperties list \<Rightarrow> LayoutWidget" where
  "layers_widget ls = blank_widget\<lparr>layout_view := blank_view\<lparr>layers := ls\<rparr>\<rparr>"

definition metal_button :: Button where
  "metal_button = \<lparr>button_color = ''#0000ff'', default_color = ''#0000ff'',
     layer_props = metal_shown, button_name = ''M1''\<rparr>"

text \<open>
  Two table iterators: one whose state is the list of the entries still to visit, and one
  over the entries \<open>metal_shown\<close>, \<open>via_shown\<close> by position. No entry has children.
\<close>

definition table_iterator :: "LayerProperties list LayerPropertiesIterator" where
  "table_iterator =
     \<lparr>begin_layers = layers,
      at_end = (\<lambda>it. it = []),
      current = (\<lambda>it. case it of [] \<Rightarrow> via_shown | p # rest \<Rightarrow> p),
      next_entry = tl,
      down_first_child = (\<lambda>it. []),
      num_siblings = (\<lambda>it. int (length it))\<rparr>"


text \<open>A cell with shapes on layer 0 only, and a widget showing it.\<close>

definition top_cell :: Cell where
  "top_cell = \<lparr>cell_name = ''TOP'', bboxes = [(0, Box 0 0 1000 500)]\<rparr>"

definition top_widget :: LayoutWidget where
  "top_widget = blank_widget\<lparr>layout_view :=
     \<lparr>cell = Some top_cell, layout = [top_cell], layers = [metal_shown, via_shown], calls = []\<rparr>\<rparr>"

section \<open>Scrolling\<close>

text \<open>
  C9. For every scroll event the handler sends the session one wheel event: its delta is
  the negation of the integer read from the event's deltaY, and the coordinates and the
  decoded modifier flags are the event's own. Before it one timer call is made, after it
  the two of the refresh.
\<close>

theorem on_scroll_forwards_negated_delta:
  "calls (layout_view (on_scroll bs e w ev)) =
     calls (layout_view w) @
       [Timer,
        SendWheelEvent (- py_int (deltaY ev)) False (DPoint (relativeX ev) (relativeY ev))
          (get_modifier_buttons bs ev),
        Timer, Timer]"
  by (simp add: on_scroll_def refresh_def call_def Let_def)

section \<open>Mouse events of another kind\<close>

text \<open>
  C10. For a mouse event whose kind is none of mousedown, mouseup and mousemove (the
  contextmenu events the widget subscribes to are such), the handler sends the session no
  press, release or move event: the session receives timer calls only, and its cell, its
  layout and its layer table stay as they were. The displayed frame is nevertheless
  replaced by a screenshot taken in the handler.
\<close>

theorem on_mouse_other_kind:
  assumes "event ev \<noteq> ''mousedown''" and "event ev \<noteq> ''mouseup''"
    and "event ev \<noteq> ''mousemove''"
  shows "calls (layout_view (on_mouse bs e w ev)) = calls (layout_view w) @ [Timer, Timer, Timer, Timer]
    \<and> cell (layout_view (on_mouse bs e w ev)) = cell (layout_view w)
    \<and> layout (layout_view (on_mouse bs e w ev)) = layout (layout_view w)
    \<and> layers (layout_view (on_mouse bs e w ev)) = layers (layout_view w)
    \<and> image (on_mouse bs e w ev) = screenshot e (call Timer (call Timer (layout_view w)))"
  using assms by (simp add: on_mouse_def refresh_def call_def Let_def)

theorem on_mouse_other_kind_witness:
  "''contextmenu'' \<in> set mouse_watched_events
   \<and> calls (layout_view (on_mouse klayout_buttons counting_engine blank_widget
        (shift_click\<lparr>event := ''contextmenu''\<rparr>))) = [Timer, Timer, Timer, Timer]
   \<and> image (on_mouse klayout_buttons counting_engine blank_widget
        (shift_click\<lparr>event := ''contextmenu''\<rparr>)) = [2]"
proof -
  have k: "event (shift_click\<lparr>event := ''contextmenu''\<rparr>) \<noteq> ''mousedown''"
    "event (shift_click\<lparr>event := ''contextmenu''\<rparr>) \<noteq> ''mouseup''"
    "event (shift_click\<lparr>event := ''contextmenu''\<rparr>) \<noteq> ''mousemove''"
    by simp_all
  have m: "''contextmenu'' \<in> set mouse_watched_events"
    by (simp add: mouse_watched_events_def)
  show ?thesis
    using on_mouse_other_kind [OF k, of klayout_buttons counting_engine blank_widget] m
    by (simp add: counting_engine_def blank_widget_def blank_view_def call_def)
qed

section \<open>Refreshing twice\<close>









section \<open>Showing a cell\<close>

text \<open>
  C8. For every cell, \<^verbatim>\<open>show_cell\<close> makes it the active cell, then asks the session for
  the full hierarchy depth, the canvas size 800 by 600, the missing layers (the layer
  table becomes the one the engine computes for that call) and the fitted zoom, in this
  order. A refresh right after it displays the picture of that session, whatever frame
  was displayed before.
\<close>

theorem show_cell_then_refresh:
  "cell (layout_view (show_cell e w (Some c))) = Some c
   \<and> calls (layout_view (show_cell e w (Some c)))
        = calls (layout_view w) @ [SetCell (Some c), MaxHier, Resize 800 600, AddMissingLayers, ZoomFit]
   \<and> layers (layout_view (show_cell e w (Some c)))
        = layer_table e AddMissingLayers
            ((layout_view w)\<lparr>cell := Some c,
               calls := calls (layout_view w) @ [SetCell (Some c), MaxHier, Resize 800 600]\<rparr>)
   \<and> image (refresh e (show_cell e w (Some c)))
        = screenshot e (call Timer (layout_view (show_cell e w (Some c))))
   \<and> image (refresh e (show_cell e (w\<lparr>image := old\<rparr>) (Some c)))
        = image (refresh e (show_cell e w (Some c)))"
  by (simp add: show_cell_def refresh_def call_def call_layers_def Let_def)

section \<open>Handlers and the displayed frame\<close>

text \<open>
  The scroll, mouse, enter and leave handlers end in a refresh: the frame they leave is a
  screenshot taken after the event was sent.
\<close>

lemma on_scroll_image:
  "image (on_scroll bs e w ev) =
     screenshot e (call Timer (call (SendWheelEvent (- py_int (deltaY ev)) False
       (DPoint (relativeX ev) (relativeY ev)) (get_modifier_buttons bs ev))
       (call Timer (layout_view w))))"
  by (simp add: on_scroll_def refresh_def Let_def)

lemma on_mouse_enter_image:
  "image (on_mouse_enter e w) =
     screenshot e (call Timer (call SendEnterEvent (call Timer (layout_view w))))"
  by (simp add: on_mouse_enter_def refresh_def Let_def)

lemma on_mouse_leave_image:
  "image (on_mouse_leave e w) =
     screenshot e (call Timer (call SendLeaveEvent (call Timer (layout_view w))))"
  by (simp add: on_mouse_leave_def refresh_def Let_def)

text \<open>
  C7 at the mode switch. The observer attached to the mode buttons sends the new mode to
  the session and returns: it takes no screenshot, and the displayed frame is the one
  from before the switch.
\<close>

theorem switch_mode_keeps_old_frame:
  "image (switch_mode w new) = image w
   \<and> calls (layout_view (switch_mode w new)) = calls (layout_view w) @ [SwitchMode new]"
  by (simp add: switch_mode_def call_def)

section \<open>Toggling a layer an even number of times\<close>

text \<open>
  The button finds its entry by comparing attributes. As long as no entry before its own
  agrees with it in everything but visibility and name, each click changes the button's
  own entry, and \<open>n\<close> clicks flip its visibility \<open>n\<close> times.
\<close>

lemma same_layer_refl: "same_layer p p"
  by (simp add: same_layer_def)

lemma same_layer_update:
  "same_layer p (q\<lparr>visible := b, name := s\<rparr>) = same_layer p q"
  by (cases p, cases q) (simp add: same_layer_def)

lemma each_layer_toggle_first:
  assumes "j < length xs" and "xs ! j = layer_props button"
    and "\<forall>i<j. xs ! i \<noteq> layer_props button"
  shows "each_layer_toggle button k xs =
     Some (k + j, (xs ! j)\<lparr>visible := \<not> visible (xs ! j), name := button_name button\<rparr>)"
  using assms
proof (induction xs arbitrary: k j)
  case Nil
  then show ?case by simp
next
  case (Cons x xs)
  show ?case
  proof (cases j)
    case 0
    with Cons.prems show ?thesis by simp
  next
    case (Suc j')
    have x: "x \<noteq> layer_props button"
      using Cons.prems(3) Suc by auto
    have "\<forall>i<j'. xs ! i \<noteq> layer_props button"
      using Cons.prems(3) Suc by auto
    with Cons.IH [of j' "Suc k"] Cons.prems(1,2) Suc x show ?thesis by simp
  qed
qed

text \<open>
  One click on the button of entry \<open>j\<close>, when no earlier entry is the same layer: entry
  \<open>j\<close> is the one that changes, and the button keeps pointing at it.
\<close>

lemma button_toggle_step:
  assumes j: "j < length (layers (layout_view w))"
    and b: "layer_props button = layers (layout_view w) ! j"
    and d: "\<forall>i<j. \<not> same_layer (layers (layout_view w) ! i) (layers (layout_view w) ! j)"
  shows "layers (layout_view (fst (button_toggle e w button))) =
      (layers (layout_view w))[j := (layers (layout_view w) ! j)
          \<lparr>visible := \<not> visible (layers (layout_view w) ! j), name := button_name button\<rparr>]
    \<and> layer_props (snd (button_toggle e w button)) =
        (layers (layout_view w) ! j)
          \<lparr>visible := \<not> visible (layers (layout_view w) ! j), name := button_name button\<rparr>
    \<and> button_name (snd (button_toggle e w button)) = button_name button"
proof -
  let ?L = "layers (layout_view w)"
  let ?b1 = "button\<lparr>button_color :=
                 (if button_color button = default_color button then ''transparent''
                  else default_color button)\<rparr>"
  have lp: "layer_props ?b1 = ?L ! j"
    using b by simp
  have "\<forall>i<j. ?L ! i \<noteq> layer_props ?b1"
  proof (intro allI impI)
    fix i assume "i < j"
    then have "\<not> same_layer (?L ! i) (?L ! j)"
      using d by blast
    then show "?L ! i \<noteq> layer_props ?b1"
      unfolding lp using same_layer_refl by metis
  qed
  then have "each_layer_toggle ?b1 0 ?L =
      Some (0 + j, (?L ! j)\<lparr>visible := \<not> visible (?L ! j), name := button_name ?b1\<rparr>)"
    using each_layer_toggle_first [of j ?L ?b1 0] j b by simp
  then show ?thesis
    by (simp add: button_toggle_def Let_def refresh_def call_def)
qed

lemma toggle_times_parity:
  assumes "j < length (layers (layout_view w))"
    and "layer_props button = layers (layout_view w) ! j"
    and "\<forall>i<j. \<not> same_layer (layers (layout_view w) ! i) (layers (layout_view w) ! j)"
  shows "visible (layers (layout_view (fst (toggle_times e n w button))) ! j) =
     (if even n then visible (layers (layout_view w) ! j)
      else \<not> visible (layers (layout_view w) ! j))"
  using assms
proof (induction n arbitrary: w button)
  case 0
  then show ?case by simp
next
  case (Suc n)
  let ?L = "layers (layout_view w)"
  let ?p = "(?L ! j)\<lparr>visible := \<not> visible (?L ! j), name := button_name button\<rparr>"
  obtain w' button' where t: "button_toggle e w button = (w', button')"
    by (cases "button_toggle e w button")
  have step: "layers (layout_view w') = ?L[j := ?p]" "layer_props button' = ?p"
    using button_toggle_step [OF Suc.prems, of e] t by simp_all
  have j': "j < length (layers (layout_view w'))"
    using step(1) Suc.prems(1) by simp
  have at: "layers (layout_view w') ! j = ?p"
    using step(1) Suc.prems(1) by simp
  have b': "layer_props button' = layers (layout_view w') ! j"
    using step(2) at by simp
  have d': "\<forall>i<j. \<not> same_layer (layers (layout_view w') ! i) (layers (layout_view w') ! j)"
  proof (intro allI impI)
    fix i assume i: "i < j"
    then have "layers (layout_view w') ! i = ?L ! i"
      using step(1) by simp
    moreover have "\<not> same_layer (?L ! i) (?L ! j)"
      using Suc.prems(3) i by blast
    ultimately show "\<not> same_layer (layers (layout_view w') ! i) (layers (layout_view w') ! j)"
      using at by (simp add: same_layer_update)
  qed
  have "visible (layers (layout_view (fst (toggle_times e n w' button'))) ! j) =
     (if even n then visible ?p else \<not> visible ?p)"
    using Suc.IH [OF j' b' d'] at by simp
  then show ?case
    using t by simp
qed

text \<open>
  C2 at two entries that differ in their visibility only. The button of the second,
  visible entry hides it on the first click; the entry then equals the first one, so the
  second click finds the first entry and shows that one instead. After two clicks the
  button's own entry is still hidden, the other entry has become visible, and the button
  is back to the colour it has for a visible layer.
\<close>

theorem toggle_twice_flips_other_entry:
  "layer_props metal_button = layers (layout_view (layers_widget [metal_hidden, metal_shown])) ! 1
   \<and> visible (layers (layout_view (layers_widget [metal_hidden, metal_shown])) ! 1)
   \<and> \<not> visible (layers (layout_view (fst (toggle_times counting_engine 2
          (layers_widget [metal_hidden, metal_shown]) metal_button))) ! 1)
   \<and> visible (layers (layout_view (fst (toggle_times counting_engine 2
          (layers_widget [metal_hidden, metal_shown]) metal_button))) ! 0)
   \<and> button_color (snd (toggle_times counting_engine 2
          (layers_widget [metal_hidden, metal_shown]) metal_button)) = default_color metal_button"
  by (simp add: numeral_2_eq_2 button_toggle_def refresh_def call_def Let_def
      layers_widget_def metal_button_def metal_shown_def metal_hidden_def
      blank_widget_def blank_view_def)

section \<open>Leaf layers without shapes\<close>



section \<open>What the selector depends on, and when building it raises\<close>






section \<open>Selecting a cell that the layout does not have\<close>

lemma show_cell_cell: "cell (layout_view (show_cell e w c)) = c"
  by (simp add: show_cell_def call_def call_layers_def Let_def)

lemma show_cell_right_sidebar: "right_sidebar (show_cell e w c) = right_sidebar w"
  by (simp add: show_cell_def Let_def)

text \<open>
  C5, as the code has it. For a name the layout does not have, the handler makes no check
  of the lookup's result: the session gets no active cell and is resized and fitted as for
  any cell. If the layer table then has no entry, the handler completes and displays
  the frame of the session without a cell. If the first entry is a leaf, the handler
  raises an attribute error when it asks the missing cell for the bounding box, with
  the session already switched and no new frame taken.
\<close>

theorem on_select_cell_unknown_name:
  assumes "layout_cell (layout_view w) owner_name = None"
  shows "(at_end ops (begin_layers ops (layout_view (show_cell e w None)))
            \<and> right_sidebar w \<noteq> None \<longrightarrow>
          on_select_cell ops e (Suc fuel) w owner_name
            = Some (Inr (refresh e ((show_cell e w None)\<lparr>right_sidebar := Some []\<rparr>))))
    \<and> (\<not> at_end ops (begin_layers ops (layout_view (show_cell e w None)))
            \<and> \<not> has_children (current ops (begin_layers ops (layout_view (show_cell e w None))))
          \<longrightarrow>
          on_select_cell ops e (Suc (Suc fuel)) w owner_name
            = Some (Inl (AttributeError, show_cell e w None)))
    \<and> cell (layout_view (show_cell e w None)) = None
    \<and> image (show_cell e w None) = image w"
proof (intro conjI impI)
  assume "at_end ops (begin_layers ops (layout_view (show_cell e w None)))
            \<and> right_sidebar w \<noteq> None"
  then show "on_select_cell ops e (Suc fuel) w owner_name
            = Some (Inr (refresh e ((show_cell e w None)\<lparr>right_sidebar := Some []\<rparr>)))"
    using assms by (auto simp add: on_select_cell_def Let_def show_cell_right_sidebar)
next
  assume "\<not> at_end ops (begin_layers ops (layout_view (show_cell e w None)))
            \<and> \<not> has_children (current ops (begin_layers ops (layout_view (show_cell e w None))))"
  then show "on_select_cell ops e (Suc (Suc fuel)) w owner_name
            = Some (Inl (AttributeError, show_cell e w None))"
    using assms by (simp add: on_select_cell_def Let_def show_cell_cell)
next
  show "cell (layout_view (show_cell e w None)) = None"
    by (rule show_cell_cell)
next
  show "image (show_cell e w None) = image w"
    by (simp add: show_cell_def Let_def)
qed

text \<open>
  A layout whose only cell has no shapes, so that the layer table is empty, shown in a
  widget with a selector; and the widget on \<open>top_cell\<close>, with a selector.
\<close>

definition bare_cell :: Cell where
  "bare_cell = \<lparr>cell_name = ''TOP'', bboxes = []\<rparr>"

definition bare_widget :: LayoutWidget where
  "bare_widget = blank_widget\<lparr>layout_view :=
     \<lparr>cell = Some bare_cell, layout = [bare_cell], layers = [], calls = []\<rparr>\<rparr>"

lemma bare_unknown: "layout_cell (layout_view bare_widget) ''GONE'' = None"
  by (simp add: layout_cell_def bare_widget_def bare_cell_def)

lemma bare_at_end:
  "at_end table_iterator (begin_layers table_iterator
      (layout_view (show_cell counting_engine bare_widget None)))"
  by (simp add: table_iterator_def show_cell_def call_def call_layers_def Let_def
      counting_engine_def bare_widget_def)

lemma bare_sidebar: "right_sidebar bare_widget \<noteq> None"
  by (simp add: bare_widget_def blank_widget_def)

theorem on_select_cell_unknown_name_witness:
  "layout_cell (layout_view bare_widget) ''GONE'' = None
   \<and> on_select_cell table_iterator counting_engine 1 bare_widget ''GONE''
        = Some (Inr (refresh counting_engine
            ((show_cell counting_engine bare_widget None)\<lparr>right_sidebar := Some []\<rparr>)))
   \<and> layout_cell (layout_view top_widget) ''GONE'' = None
   \<and> on_select_cell table_iterator counting_engine 2 top_widget ''GONE''
        = Some (Inl (AttributeError, show_cell counting_engine top_widget None))"
proof -
  have a: "on_select_cell table_iterator counting_engine 1 bare_widget ''GONE''
        = Some (Inr (refresh counting_engine
            ((show_cell counting_engine bare_widget None)\<lparr>right_sidebar := Some []\<rparr>)))"
    using on_select_cell_unknown_name [OF bare_unknown, of table_iterator counting_engine 0]
      bare_at_end bare_sidebar by simp
  have u: "layout_cell (layout_view top_widget) ''GONE'' = None"
    by (simp add: layout_cell_def top_widget_def top_cell_def)
  have l: "\<not> at_end table_iterator (begin_layers table_iterator
              (layout_view (show_cell counting_engine top_widget None)))
      \<and> \<not> has_children (current table_iterator (begin_layers table_iterator
              (layout_view (show_cell counting_engine top_widget None))))"
    by (simp add: table_iterator_def show_cell_def call_def call_layers_def Let_def
        counting_engine_def top_widget_def metal_shown_def metal_hidden_def)
  have b: "on_select_cell table_iterator counting_engine 2 top_widget ''GONE''
        = Some (Inl (AttributeError, show_cell counting_engine top_widget None))"
    using on_select_cell_unknown_name [OF u, of table_iterator counting_engine 0] l
    by (simp add: numeral_2_eq_2)
  show ?thesis using bare_unknown a u b by blast
qed

text \<open>
  As stated, C5 fails: the name is not in the layout, and the handler returns, with no
  active cell in the session and the frame of that session displayed.
\<close>

theorem on_select_cell_counterexample:
  "layout_cell (layout_view bare_widget) ''GONE'' = None
   \<and> on_select_cell table_iterator counting_engine 1 bare_widget ''GONE''
        = Some (Inr (refresh counting_engine
            ((show_cell counting_engine bare_widget None)\<lparr>right_sidebar := Some []\<rparr>)))
   \<and> cell (layout_view (refresh counting_engine
            ((show_cell counting_engine bare_widget None)\<lparr>right_sidebar := Some []\<rparr>))) = None"
proof -
  have "on_select_cell table_iterator counting_engine 1 bare_widget ''GONE''
        = Some (Inr (refresh counting_engine
            ((show_cell counting_engine bare_widget None)\<lparr>right_sidebar := Some []\<rparr>)))"
    using bare_unknown bare_at_end bare_sidebar
    by (auto simp add: on_select_cell_def Let_def show_cell_right_sidebar)
  moreover have "cell (layout_view (refresh counting_engine
            ((show_cell counting_engine bare_widget None)\<lparr>right_sidebar := Some []\<rparr>))) = None"
    by (simp add: refresh_def call_def Let_def show_cell_cell)
  ultimately show ?thesis using bare_unknown by blast
qed

section \<open>A layer-properties path that names no file\<close>










end
